theory Spec2Isabelle
  imports Main "HOL-Library.Word" "HOL-Library.Char_ord"
begin

section \<open>Values, objects and diagnostics of the plugin framework\<close>

text \<open>
  The provider is written against terraform-plugin-framework.  An attribute value
  (\<open>types.String\<close>, \<open>types.Bool\<close>) is null, unknown or known.
\<close>

datatype 'a tfval = Null | Unknown | Known 'a

fun IsNull :: "'a tfval \<Rightarrow> bool" where
  "IsNull Null = True"
| "IsNull Unknown = False"
| "IsNull (Known v) = False"

text \<open>\<open>ValueString\<close> is the known string, and the empty string for null and unknown.\<close>

fun ValueString :: "string tfval \<Rightarrow> string" where
  "ValueString (Known s) = s"
| "ValueString Null = []"
| "ValueString Unknown = []"

text \<open>
  \<open>ValueBoolPointer\<close> is nil for null, and otherwise a pointer to the stored bool
  (false for unknown).
\<close>

fun ValueBoolPointer :: "bool tfval \<Rightarrow> bool option" where
  "ValueBoolPointer Null = None"
| "ValueBoolPointer Unknown = Some False"
| "ValueBoolPointer (Known b) = Some b"

datatype attr_value = StringValue "string tfval" | BoolValue "bool tfval"

text \<open>
  The raw data of a configuration, plan or state: an object from attribute names to
  values, or null (\<open>None\<close>) when there is no such object.
\<close>

type_synonym object = "string \<rightharpoonup> attr_value"

text \<open>Errors of \<open>time.ParseDuration\<close>; the strings are the ones quoted in the message.\<close>

datatype duration_error =
    InvalidDuration string
  | MissingUnit string
  | UnknownUnit string string

datatype severity = SeverityError | SeverityWarning

datatype detail = Text string | DurationErrorText duration_error

record diagnostic =
  Severity :: severity
  Summary :: string
  Detail :: detail

definition NewErrorDiagnostic :: "string \<Rightarrow> detail \<Rightarrow> diagnostic" where
  "NewErrorDiagnostic summary d = \<lparr>Severity = SeverityError, Summary = summary, Detail = d\<rparr>"

text \<open>\<open>Diagnostics.Append\<close> skips a diagnostic the collection already contains.\<close>

fun Append :: "diagnostic list \<Rightarrow> diagnostic list \<Rightarrow> diagnostic list" where
  "Append diags [] = diags"
| "Append diags (d # ds) = Append (if d \<in> set diags then diags else diags @ [d]) ds"

definition AddError :: "diagnostic list \<Rightarrow> string \<Rightarrow> detail \<Rightarrow> diagnostic list" where
  "AddError diags summary d = Append diags [NewErrorDiagnostic summary d]"

definition HasError :: "diagnostic list \<Rightarrow> bool" where
  "HasError diags = (\<exists>d \<in> set diags. Severity d = SeverityError)"

text \<open>
  The diagnostic with which \<open>Get\<close> reports that the raw data does not fit the target
  struct.  The framework's wording is not material here.
\<close>

definition ValueConversionError :: diagnostic where
  "ValueConversionError = NewErrorDiagnostic ''Value Conversion Error'' (Text [])"

section \<open>The signing library's access token\<close>

text \<open>
  \<open>auth.AccessToken\<close> and \<open>auth.VideoGrant\<close> of the signing library, with the
  fields this provider sets; every other field of the grant keeps its zero value.
  The library's field names carry a prefix here, so that the provider's own model
  keeps \<open>Room\<close>, \<open>Identity\<close> and the rest.
  A \<open>*bool\<close> is a \<open>bool option\<close>.  A duration is an \<open>int64\<close> count of nanoseconds: a 64-bit word read by \<open>sint\<close>.
\<close>

type_synonym Duration = "64 word"

record VideoGrant =
  grant_Room :: string
  grant_CanPublish :: "bool option"
  grant_CanPublishData :: "bool option"
  grant_CanSubscribe :: "bool option"
  grant_RoomJoin :: bool

record ClaimGrants =
  claim_Identity :: string
  claim_Video :: "VideoGrant option"

record AccessToken =
  at_apiKey :: string
  at_secret :: string
  at_grant :: ClaimGrants
  at_validFor :: Duration

definition NewAccessToken :: "string \<Rightarrow> string \<Rightarrow> AccessToken" where
  "NewAccessToken key sec =
     \<lparr>at_apiKey = key, at_secret = sec,
      at_grant = \<lparr>claim_Identity = [], claim_Video = None\<rparr>, at_validFor = 0\<rparr>"

definition AddGrant :: "AccessToken \<Rightarrow> VideoGrant \<Rightarrow> AccessToken" where
  "AddGrant t g = t\<lparr>at_grant := (at_grant t)\<lparr>claim_Video := Some g\<rparr>\<rparr>"

definition SetIdentity :: "AccessToken \<Rightarrow> string \<Rightarrow> AccessToken" where
  "SetIdentity t identity = t\<lparr>at_grant := (at_grant t)\<lparr>claim_Identity := identity\<rparr>\<rparr>"

definition SetValidFor :: "AccessToken \<Rightarrow> Duration \<Rightarrow> AccessToken" where
  "SetValidFor t duration = t\<lparr>at_validFor := duration\<rparr>"







section \<open>The provider\<close>

record LivekitProviderModel =
  ApiKey :: "string tfval"
  ApiSecret :: "string tfval"

text \<open>
  \<open>req.Config.Get(ctx, &data)\<close>: the two string attributes are read into the model;
  raw data that is null or lacks one of them as a string is a conversion error.
\<close>

definition Get_LivekitProviderModel :: "object option \<Rightarrow> diagnostic list \<times> LivekitProviderModel" where
  "Get_LivekitProviderModel raw =
     (case raw of
        None \<Rightarrow> ([ValueConversionError], \<lparr>ApiKey = Null, ApiSecret = Null\<rparr>)
      | Some obj \<Rightarrow>
          (case (obj ''api_key'', obj ''api_secret'') of
             (Some (StringValue k), Some (StringValue s)) \<Rightarrow> ([], \<lparr>ApiKey = k, ApiSecret = s\<rparr>)
           | _ \<Rightarrow> ([ValueConversionError], \<lparr>ApiKey = Null, ApiSecret = Null\<rparr>)))"

text \<open>\<open>os.Getenv\<close>: the value of the variable, empty when it is not set.\<close>

definition Getenv :: "(string \<rightharpoonup> string) \<Rightarrow> string \<Rightarrow> string" where
  "Getenv env k = (case env k of None \<Rightarrow> [] | Some v \<Rightarrow> v)"

definition provider_TypeName :: string where
  "provider_TypeName = ''livekit''"

record ConfigureRequest =
  Config :: "object option"

record ConfigureResponse =
  cfg_Diagnostics :: "diagnostic list"
  DataSourceData :: "AccessToken option"
  ResourceData :: "AccessToken option"

definition api_key_missing :: diagnostic where
  "api_key_missing = NewErrorDiagnostic ''Livekit api key missing''
     (Text (''The provider cannot create the Livekit client as there is a missing or empty value for the Livekit API key. '' @
            ''Set the api_key value in the configuration or use the LIVEKIT_API_KEY environment variable. '' @
            ''If either is already set, ensure the value is not empty.''))"

definition api_secret_missing :: diagnostic where
  "api_secret_missing = NewErrorDiagnostic ''Livekit api secret missing''
     (Text (''The provider cannot create the Livekit client as there is a missing or empty value for the Livekit API secret. '' @
            ''Set the api_secret value in the configuration or use the LIVEKIT_API_SECRET environment variable. '' @
            ''If either is already set, ensure the value is not empty.''))"

text \<open>
  \<open>LivekitProvider.Configure\<close>.  The response is passed in and returned; the process
  environment is the first argument.  Both data fields of the response receive the same
  access token.
\<close>

definition Configure :: "(string \<rightharpoonup> string) \<Rightarrow> ConfigureRequest \<Rightarrow> ConfigureResponse \<Rightarrow> ConfigureResponse" where
  "Configure env req resp =
     (let (ds, data) = Get_LivekitProviderModel (Config req);
          resp = resp\<lparr>cfg_Diagnostics := Append (cfg_Diagnostics resp) ds\<rparr>
      in if HasError (cfg_Diagnostics resp) then resp
         else
           let apiKey = Getenv env ''LIVEKIT_API_KEY'';
               apiSecret = Getenv env ''LIVEKIT_API_SECRET'';
               apiKey = (if \<not> IsNull (ApiKey data) then ValueString (ApiKey data) else apiKey);
               apiSecret = (if \<not> IsNull (ApiSecret data) then ValueString (ApiSecret data) else apiSecret);
               resp = (if apiKey = [] then
                         resp\<lparr>cfg_Diagnostics := Append (cfg_Diagnostics resp) [api_key_missing]\<rparr>
                       else resp);
               resp = (if apiSecret = [] then
                         resp\<lparr>cfg_Diagnostics := Append (cfg_Diagnostics resp) [api_secret_missing]\<rparr>
                       else resp)
           in if HasError (cfg_Diagnostics resp) then resp
              else
                let accessToken = NewAccessToken apiKey apiSecret
                in resp\<lparr>DataSourceData := Some accessToken, ResourceData := Some accessToken\<rparr>)"

text \<open>
  The constructors a provider can list.  \<open>NewAccessTokenResource\<close> is the one defined in
  access_token_resource.go; \<open>NewExampleResource\<close> is the name the provider's
  \<open>Resources\<close> method lists.
\<close>

datatype resource_constructor = NewExampleResource | NewAccessTokenResource

definition Resources :: "resource_constructor list" where
  "Resources = [NewExampleResource]"


section \<open>Parsing a duration\<close>

text \<open>
  \<open>Create\<close> hands the \<open>valid_for\<close> string to \<open>time.ParseDuration\<close> of the Go
  standard library.  The function is modelled here as the library has it: unsigned
  64-bit accumulation with its overflow checks, and, for a fractional part, the
  \<open>float64\<close> product that the library computes.

  The \<open>float64\<close> values that occur are finite, non-negative and far from the ends of the
  exponent range, so a value is kept as \<open>m * 2 ^ e\<close> and every operation rounds its
  exact result to 53 significant bits, to nearest, ties to even.
\<close>

type_synonym uint64 = "64 word"

datatype float64 = Float64 nat int

fun bitlen :: "nat \<Rightarrow> nat" where
  "bitlen n = (if n = 0 then 0 else Suc (bitlen (n div 2)))"

declare bitlen.simps [simp del]

definition round_nearest_even :: "nat \<Rightarrow> nat \<Rightarrow> nat" where
  "round_nearest_even a b =
     (let q = a div b; r = a mod b
      in if 2 * r < b then q
         else if b < 2 * r then q + 1
         else if even q then q else q + 1)"

text \<open>\<open>round64 a b e\<close> is \<open>a / b * 2 ^ e\<close> rounded to a 53-bit significand.\<close>

definition round64 :: "nat \<Rightarrow> nat \<Rightarrow> int \<Rightarrow> float64" where
  "round64 a b e =
     (if a = 0 then Float64 0 0
      else
        let s = 53 - (int (bitlen a) - int (bitlen b));
            s = (if 2 ^ 53 * (b * 2 ^ nat (- s)) \<le> a * 2 ^ nat s then s - 1 else s)
        in Float64 (round_nearest_even (a * 2 ^ nat s) (b * 2 ^ nat (- s))) (e - s))"

definition float64_of_uint64 :: "uint64 \<Rightarrow> float64" where
  "float64_of_uint64 x = round64 (unat x) 1 0"

fun float64_mul :: "float64 \<Rightarrow> float64 \<Rightarrow> float64" where
  "float64_mul (Float64 m1 e1) (Float64 m2 e2) = round64 (m1 * m2) 1 (e1 + e2)"

fun float64_div :: "float64 \<Rightarrow> float64 \<Rightarrow> float64" where
  "float64_div (Float64 m1 e1) (Float64 m2 e2) = round64 m1 m2 (e1 - e2)"

text \<open>Conversion to \<open>uint64\<close> truncates; the values converted are below \<open>2 ^ 64\<close>.\<close>

fun uint64_of_float64 :: "float64 \<Rightarrow> uint64" where
  "uint64_of_float64 (Float64 m e) =
     (if 0 \<le> e then of_nat (m * 2 ^ nat e) else of_nat (m div 2 ^ nat (- e)))"

text \<open>\<open>leadingInt\<close> consumes the leading digits; \<open>None\<close> is its overflow error.\<close>

fun leadingInt_loop :: "uint64 \<Rightarrow> string \<Rightarrow> (uint64 \<times> string) option" where
  "leadingInt_loop x [] = Some (x, [])"
| "leadingInt_loop x (c # s) =
     (if c < CHR ''0'' \<or> c > CHR ''9'' then Some (x, c # s)
      else if x > 2 ^ 63 div 10 then None
      else
        let x = x * 10 + of_char c - of_char CHR ''0''
        in if x > 2 ^ 63 then None else leadingInt_loop x s)"

definition leadingInt :: "string \<Rightarrow> (uint64 \<times> string) option" where
  "leadingInt s = leadingInt_loop 0 s"

text \<open>
  \<open>leadingFraction\<close> consumes the leading digits too, but on overflow it only stops
  accumulating.
\<close>

fun leadingFraction_loop :: "uint64 \<Rightarrow> float64 \<Rightarrow> bool \<Rightarrow> string \<Rightarrow> uint64 \<times> float64 \<times> string" where
  "leadingFraction_loop x scale overflow [] = (x, scale, [])"
| "leadingFraction_loop x scale overflow (c # s) =
     (if c < CHR ''0'' \<or> c > CHR ''9'' then (x, scale, c # s)
      else if overflow then leadingFraction_loop x scale overflow s
      else if x > (2 ^ 63 - 1) div 10 then leadingFraction_loop x scale True s
      else
        let y = x * 10 + of_char c - of_char CHR ''0''
        in if y > 2 ^ 63 then leadingFraction_loop x scale True s
           else leadingFraction_loop y (float64_mul scale (Float64 10 0)) overflow s)"

definition leadingFraction :: "string \<Rightarrow> uint64 \<times> float64 \<times> string" where
  "leadingFraction s = leadingFraction_loop 0 (Float64 1 0) False s"

text \<open>
  The units, in nanoseconds.  The third and fourth keys are the UTF-8 bytes of the micro
  sign and of the Greek letter mu, each followed by \<open>s\<close>.
\<close>

definition unitMap :: "string \<rightharpoonup> uint64" where
  "unitMap = map_of
     [(''ns'', 1),
      (''us'', 1000),
      ([CHR 0xC2, CHR 0xB5, CHR ''s''], 1000),
      ([CHR 0xCE, CHR 0xBC, CHR ''s''], 1000),
      (''ms'', 1000000),
      (''s'', 1000000000),
      (''m'', 60000000000),
      (''h'', 3600000000000)]"

text \<open>A unit runs up to the next \<open>.\<close> or digit.\<close>

definition unit_char :: "char \<Rightarrow> bool" where
  "unit_char c = (\<not> (c = CHR ''.'' \<or> CHR ''0'' \<le> c \<and> c \<le> CHR ''9''))"

text \<open>
  One round of the library's loop: a number, an optional fraction and a unit.  The result
  is the value in nanoseconds and the rest of the string.  The loop runs only on a
  non-empty string.
\<close>

definition parse_component :: "string \<Rightarrow> string \<Rightarrow> duration_error + (uint64 \<times> string)" where
  "parse_component orig s =
     (case s of
        [] \<Rightarrow> Inl (InvalidDuration orig)
      | c # _ \<Rightarrow>
          if \<not> (c = CHR ''.'' \<or> CHR ''0'' \<le> c \<and> c \<le> CHR ''9'') then Inl (InvalidDuration orig)
          else
            (case leadingInt s of
               None \<Rightarrow> Inl (InvalidDuration orig)
             | Some (v, s1) \<Rightarrow>
                 let pre = (length s \<noteq> length s1);
                     (f, scale, s2, post) =
                        (case s1 of
                           c1 # s1' \<Rightarrow>
                             if c1 = CHR ''.'' then
                               (case leadingFraction s1' of
                                  (f, scale, s2) \<Rightarrow> (f, scale, s2, length s1' \<noteq> length s2))
                             else (0, Float64 1 0, s1, False)
                         | [] \<Rightarrow> (0, Float64 1 0, s1, False))
                 in if \<not> pre \<and> \<not> post then Inl (InvalidDuration orig)
                    else
                      let u = takeWhile unit_char s2;
                          s3 = dropWhile unit_char s2
                      in if u = [] then Inl (MissingUnit orig)
                         else
                           (case unitMap u of
                              None \<Rightarrow> Inl (UnknownUnit u orig)
                            | Some unit \<Rightarrow>
                                if v > 2 ^ 63 div unit then Inl (InvalidDuration orig)
                                else
                                  let v = v * unit
                                  in if f > 0 then
                                       let v = v + uint64_of_float64
                                                 (float64_mul (float64_of_uint64 f)
                                                    (float64_div (float64_of_uint64 unit) scale))
                                       in if v > 2 ^ 63 then Inl (InvalidDuration orig)
                                          else Inr (v, s3)
                                     else Inr (v, s3))))"

function ParseDuration_loop :: "string \<Rightarrow> string \<Rightarrow> uint64 \<Rightarrow> duration_error + uint64" where
  "ParseDuration_loop orig s d =
     (if s = [] then Inr d
      else
        (case parse_component orig s of
           Inl e \<Rightarrow> Inl e
         | Inr (v, s') \<Rightarrow>
             let d = d + v
             in if d > 2 ^ 63 then Inl (InvalidDuration orig)
                else ParseDuration_loop orig s' d))"
  by pat_completeness auto

text \<open>Every round consumes at least the one character of its unit.\<close>

termination
proof (relation "measure (\<lambda>(orig, s, d). length s)")
  show "wf (measure (\<lambda>(orig, s, d). length s))" by simp
next
  fix orig s :: string and d :: uint64 and x2 :: "uint64 \<times> string" and v s' da
  assume ne: "s \<noteq> []" and pc: "parse_component orig s = Inr x2" and x2: "(v, s') = x2"
  have li: "length r \<le> length t" if "leadingInt_loop x t = Some (w, r)" for x t w r
    using that by (induction t arbitrary: x) (auto split: if_splits simp: Let_def le_Suc_eq)
  have lf: "length r \<le> length t" if "leadingFraction_loop x sc ov t = (f, sc', r)" for x sc ov t f sc' r
    using that
    by (induction x sc ov t rule: leadingFraction_loop.induct)
       (auto split: if_splits simp: Let_def le_Suc_eq)
  from pc x2 have pc': "parse_component orig s = Inr (v, s')" by simp
  obtain c cs where s: "s = c # cs" using ne by (cases s) auto
  obtain w s1 where a0: "leadingInt s = Some (w, s1)"
  proof (cases "leadingInt s")
    case None
    with pc' have False unfolding s by (simp add: parse_component_def split: if_splits)
    then show ?thesis ..
  next
    case (Some p)
    with that show ?thesis by (cases p) auto
  qed
  define T where "T = (case s1 of
                           c1 # s1' \<Rightarrow>
                             if c1 = CHR ''.'' then
                               (case leadingFraction s1' of
                                  (f, scale, s2) \<Rightarrow> (f, scale, s2, length s1' \<noteq> length s2))
                             else (0, Float64 1 0, s1, False)
                         | [] \<Rightarrow> (0, Float64 1 0, s1, False))"
  obtain f sc s2 post where T: "T = (f, sc, s2, post)" by (cases T) auto
  from a0 have a: "leadingInt_loop 0 s = Some (w, s1)" by (simp add: leadingInt_def)
  have b: "s2 = s1 \<or> (\<exists>s1' f sc. s1 = CHR ''.'' # s1' \<and>
             leadingFraction_loop 0 (Float64 1 0) False s1' = (f, sc, s2))"
    using T unfolding T_def leadingFraction_def
    by (auto split: list.splits if_splits prod.splits)
  from pc' have "takeWhile unit_char s2 \<noteq> [] \<and> s' = dropWhile unit_char s2"
    unfolding parse_component_def s list.case a0 [unfolded s] option.case prod.case
      T_def [symmetric, unfolded s] T Let_def
    by (simp split: if_splits option.splits)
  then have c: "takeWhile unit_char s2 \<noteq> []" and e: "s' = dropWhile unit_char s2" by simp_all
  from b have "length s2 \<le> length s1" using lf by fastforce
  moreover from a have "length s1 \<le> length s" by (rule li)
  moreover have "length (takeWhile unit_char s2) + length (dropWhile unit_char s2) = length s2"
    by (metis length_append takeWhile_dropWhile_id)
  moreover from c have "0 < length (takeWhile unit_char s2)" by simp
  ultimately have "length s' < length s" unfolding e by linarith
  then show "((orig, s', da), orig, s, d) \<in> measure (\<lambda>(orig, s, d). length s)" by simp
qed

declare ParseDuration_loop.simps [simp del]

text \<open>
  \<open>time.ParseDuration\<close>: an optional sign, then either the single character \<open>0\<close> or
  one or more rounds of number and unit.
\<close>

definition ParseDuration :: "string \<Rightarrow> duration_error + Duration" where
  "ParseDuration s0 =
     (let orig = s0;
          (neg, s) = (case s0 of
                        c # s' \<Rightarrow>
                          if c = CHR ''-'' \<or> c = CHR ''+'' then (c = CHR ''-'', s') else (False, s0)
                      | [] \<Rightarrow> (False, s0))
      in if s = ''0'' then Inr 0
         else if s = [] then Inl (InvalidDuration orig)
         else
           (case ParseDuration_loop orig s 0 of
              Inl e \<Rightarrow> Inl e
            | Inr d \<Rightarrow>
                if neg then Inr (- d)
                else if d > 2 ^ 63 - 1 then Inl (InvalidDuration orig)
                else Inr d))"

section \<open>The access-token resource\<close>

subsection \<open>Schema\<close>

datatype attr_type = StringType | BoolType

datatype plan_modifier = RequiresReplace | UseStateForUnknown

record attribute =
  AttrType :: attr_type
  MarkdownDescription :: string
  Required :: bool
  Optional :: bool
  Computed :: bool
  Sensitive :: bool
  Default :: "string option"
  PlanModifiers :: "plan_modifier list"

text \<open>\<open>schema.StringAttribute{}\<close> and \<open>schema.BoolAttribute{}\<close> with every field zero.\<close>

definition StringAttribute :: attribute where
  "StringAttribute =
     \<lparr>AttrType = StringType, MarkdownDescription = [], Required = False, Optional = False,
      Computed = False, Sensitive = False, Default = None, PlanModifiers = []\<rparr>"

definition BoolAttribute :: attribute where
  "BoolAttribute = StringAttribute\<lparr>AttrType := BoolType\<rparr>"

text \<open>The attributes that \<open>AccessTokenResource.Schema\<close> declares, in the order of the source.\<close>

definition Schema_Attributes :: "(string \<times> attribute) list" where
  "Schema_Attributes =
     [(''room'', StringAttribute
         \<lparr>MarkdownDescription := ''Room name'',
          Required := True,
          PlanModifiers := [RequiresReplace]\<rparr>),
      (''identity'', StringAttribute
         \<lparr>MarkdownDescription := ''Token identity to connect into the room'',
          Required := True,
          PlanModifiers := [RequiresReplace]\<rparr>),
      (''can_publish'', BoolAttribute
         \<lparr>MarkdownDescription := ''Can Publish'',
          Required := True,
          PlanModifiers := [RequiresReplace]\<rparr>),
      (''can_publish_data'', BoolAttribute
         \<lparr>MarkdownDescription := ''Can publish data'',
          Required := True,
          PlanModifiers := [RequiresReplace]\<rparr>),
      (''can_subscribe'', BoolAttribute
         \<lparr>MarkdownDescription := ''Can subscribe'',
          Required := True,
          PlanModifiers := [RequiresReplace]\<rparr>),
      (''valid_for'', StringAttribute
         \<lparr>MarkdownDescription := ''Validity duration of the token, e.g. 1h, 1d, 1w, etc.'',
          Optional := True,
          Computed := True,
          Default := Some ''1h'',
          PlanModifiers := [RequiresReplace]\<rparr>),
      (''token'', StringAttribute
         \<lparr>Computed := True,
          Sensitive := True,
          MarkdownDescription := ''The generated JWT token'',
          PlanModifiers := [UseStateForUnknown]\<rparr>)]"

text \<open>\<open>AccessTokenResource.Metadata\<close>: the resource's type name.\<close>

definition Metadata_TypeName :: "string \<Rightarrow> string" where
  "Metadata_TypeName ProviderTypeName = ProviderTypeName @ ''_access_token''"

subsection \<open>Objects that fit a schema\<close>

fun type_of :: "attr_value \<Rightarrow> attr_type" where
  "type_of (StringValue v) = StringType"
| "type_of (BoolValue v) = BoolType"

text \<open>
  The framework keeps plan and state as objects of the schema's type: exactly the
  schema's attributes, each with a value of the attribute's type.
\<close>

definition conforms :: "(string \<times> attribute) list \<Rightarrow> object \<Rightarrow> bool" where
  "conforms attrs obj =
     (dom obj = set (map fst attrs) \<and>
      list_all (\<lambda>(n, a). case obj n of None \<Rightarrow> False | Some v \<Rightarrow> type_of v = AttrType a) attrs)"

subsection \<open>Plan modifiers\<close>

text \<open>
  What the framework's two plan modifiers do for one attribute, given whether there is a
  prior state and a plan at all, and the attribute's value in configuration, state and
  plan.  The result is the planned value and whether the attribute requires replacement.
  \<open>RequiresReplace\<close> does nothing on creation (no state) and on destruction (no plan),
  and otherwise asks for replacement when plan and state differ.  \<open>UseStateForUnknown\<close>
  copies the state's value into an unknown planned value.
\<close>

fun IsNull_value :: "attr_value \<Rightarrow> bool" where
  "IsNull_value (StringValue v) = IsNull v"
| "IsNull_value (BoolValue v) = IsNull v"

fun IsUnknown_value :: "attr_value \<Rightarrow> bool" where
  "IsUnknown_value (StringValue v) = (v = Unknown)"
| "IsUnknown_value (BoolValue v) = (v = Unknown)"

fun PlanModify :: "plan_modifier \<Rightarrow> object option \<Rightarrow> object option \<Rightarrow>
    attr_value \<Rightarrow> attr_value \<Rightarrow> attr_value \<Rightarrow> attr_value \<times> bool" where
  "PlanModify RequiresReplace state plan configValue stateValue planValue =
     (if state = None then (planValue, False)
      else if plan = None then (planValue, False)
      else if planValue = stateValue then (planValue, False)
      else (planValue, True))"
| "PlanModify UseStateForUnknown state plan configValue stateValue planValue =
     (if IsNull_value stateValue then (planValue, False)
      else if \<not> IsUnknown_value planValue then (planValue, False)
      else if IsUnknown_value configValue then (planValue, False)
      else (stateValue, False))"

text \<open>The modifiers of one attribute run in order, each on the value the last one planned.\<close>

fun PlanModify_all :: "plan_modifier list \<Rightarrow> object option \<Rightarrow> object option \<Rightarrow>
    attr_value \<Rightarrow> attr_value \<Rightarrow> attr_value \<Rightarrow> attr_value \<times> bool" where
  "PlanModify_all [] state plan configValue stateValue planValue = (planValue, False)"
| "PlanModify_all (m # ms) state plan configValue stateValue planValue =
     (let (planValue, rr) = PlanModify m state plan configValue stateValue planValue;
          (planValue, rr') = PlanModify_all ms state plan configValue stateValue planValue
      in (planValue, rr \<or> rr'))"

fun null_of :: "attr_type \<Rightarrow> attr_value" where
  "null_of StringType = StringValue Null"
| "null_of BoolType = BoolValue Null"

definition value_at :: "attr_type \<Rightarrow> object option \<Rightarrow> string \<Rightarrow> attr_value" where
  "value_at ty raw n =
     (case raw of
        None \<Rightarrow> null_of ty
      | Some obj \<Rightarrow> (case obj n of None \<Rightarrow> null_of ty | Some v \<Rightarrow> v))"

definition attribute_plan :: "attribute \<Rightarrow> string \<Rightarrow> object option \<Rightarrow> object option \<Rightarrow>
    object option \<Rightarrow> attr_value \<times> bool" where
  "attribute_plan a n config state plan =
     PlanModify_all (PlanModifiers a) state plan
       (value_at (AttrType a) config n) (value_at (AttrType a) state n)
       (value_at (AttrType a) plan n)"

text \<open>The names of the attributes that require replacement, and the planned object.\<close>

definition RequiresReplace_paths :: "(string \<times> attribute) list \<Rightarrow> object option \<Rightarrow>
    object option \<Rightarrow> object option \<Rightarrow> string list" where
  "RequiresReplace_paths attrs config state plan =
     map fst (filter (\<lambda>(n, a). snd (attribute_plan a n config state plan)) attrs)"

definition modified_plan :: "(string \<times> attribute) list \<Rightarrow> object option \<Rightarrow>
    object option \<Rightarrow> object option \<Rightarrow> object" where
  "modified_plan attrs config state plan =
     map_of (map (\<lambda>(n, a). (n, fst (attribute_plan a n config state plan))) attrs)"

subsection \<open>The resource's model and its conversions\<close>

record AccessTokenResourceModel =
  Room :: "string tfval"
  Identity :: "string tfval"
  CanPublish :: "bool tfval"
  CanPublishData :: "bool tfval"
  CanSubscribe :: "bool tfval"
  ValidFor :: "string tfval"
  Token :: "string tfval"

definition zero_AccessTokenResourceModel :: AccessTokenResourceModel where
  "zero_AccessTokenResourceModel =
     \<lparr>Room = Null, Identity = Null, CanPublish = Null, CanPublishData = Null,
      CanSubscribe = Null, ValidFor = Null, Token = Null\<rparr>"

text \<open>
  \<open>Get(ctx, &data)\<close> on a plan or a state: each field is read from the attribute its
  \<open>tfsdk\<close> tag names.  Null raw data, a missing attribute or a value of another type
  is a conversion error.
\<close>

definition Get_AccessTokenResourceModel :: "object option \<Rightarrow> diagnostic list \<times> AccessTokenResourceModel" where
  "Get_AccessTokenResourceModel raw =
     (case raw of
        None \<Rightarrow> ([ValueConversionError], zero_AccessTokenResourceModel)
      | Some obj \<Rightarrow>
          (case (obj ''room'', obj ''identity'', obj ''can_publish'', obj ''can_publish_data'',
                 obj ''can_subscribe'', obj ''valid_for'', obj ''token'') of
             (Some (StringValue room), Some (StringValue ident), Some (BoolValue cp),
              Some (BoolValue cpd), Some (BoolValue cs), Some (StringValue vf),
              Some (StringValue tok)) \<Rightarrow>
               ([], \<lparr>Room = room, Identity = ident, CanPublish = cp, CanPublishData = cpd,
                     CanSubscribe = cs, ValidFor = vf, Token = tok\<rparr>)
           | _ \<Rightarrow> ([ValueConversionError], zero_AccessTokenResourceModel)))"

text \<open>\<open>State.Set(ctx, &data)\<close> replaces the state by the object of the model's fields.\<close>

definition Set_AccessTokenResourceModel :: "AccessTokenResourceModel \<Rightarrow> object" where
  "Set_AccessTokenResourceModel data =
     [''room'' \<mapsto> StringValue (Room data),
      ''identity'' \<mapsto> StringValue (Identity data),
      ''can_publish'' \<mapsto> BoolValue (CanPublish data),
      ''can_publish_data'' \<mapsto> BoolValue (CanPublishData data),
      ''can_subscribe'' \<mapsto> BoolValue (CanSubscribe data),
      ''valid_for'' \<mapsto> StringValue (ValidFor data),
      ''token'' \<mapsto> StringValue (Token data)]"

subsection \<open>Create, Read and ImportState\<close>

text \<open>
  The resource holds the pointer \<open>apiKeys\<close> to the provider's access token, nil until
  the resource is configured.  The token's setters write through the pointer, so an
  operation returns the resource with the token as it has become.
\<close>

record AccessTokenResource =
  apiKeys :: "AccessToken option"

definition NewAccessTokenResource_value :: AccessTokenResource where
  "NewAccessTokenResource_value = \<lparr>apiKeys = None\<rparr>"

record CreateRequest =
  Plan :: "object option"

record ReadRequest =
  ReadRequest_State :: "object option"

record ImportStateRequest =
  ID :: string

text \<open>The responses of Create, Read and ImportState all carry a state and diagnostics.\<close>

record Response =
  State :: "object option"
  Diagnostics :: "diagnostic list"

text \<open>A call into a nil pointer panics.\<close>

datatype 'a outcome = Panic | Return 'a

text \<open>
  \<open>AccessTokenResource.Create\<close>.  The first argument stands for \<open>ToJWT\<close> of the signing
  library: the error text or the signed token for the access token it is called on.
\<close>

definition Create :: "(AccessToken \<Rightarrow> string + string) \<Rightarrow> AccessTokenResource \<Rightarrow>
    CreateRequest \<Rightarrow> Response \<Rightarrow> (Response \<times> AccessTokenResource) outcome" where
  "Create ToJWT r req resp =
     (let (ds, data) = Get_AccessTokenResourceModel (Plan req);
          resp = resp\<lparr>Diagnostics := Append (Diagnostics resp) ds\<rparr>
      in if HasError (Diagnostics resp) then Return (resp, r)
         else
           (case ParseDuration (ValueString (ValidFor data)) of
              Inl err \<Rightarrow>
                Return (resp\<lparr>Diagnostics :=
                          AddError (Diagnostics resp) ''Invalid valid_for '' (DurationErrorText err)\<rparr>, r)
            | Inr validFor \<Rightarrow>
                let grant = \<lparr>grant_Room = ValueString (Room data),
                             grant_CanPublish = ValueBoolPointer (CanPublish data),
                             grant_CanPublishData = ValueBoolPointer (CanPublishData data),
                             grant_CanSubscribe = ValueBoolPointer (CanSubscribe data),
                             grant_RoomJoin = True\<rparr>
                in (case apiKeys r of
                      None \<Rightarrow> Panic
                    | Some t \<Rightarrow>
                        let at = SetValidFor
                                   (SetIdentity (AddGrant t grant) (ValueString (Identity data)))
                                   validFor;
                            r = r\<lparr>apiKeys := Some at\<rparr>
                        in (case ToJWT at of
                              Inl err \<Rightarrow>
                                Return (resp\<lparr>Diagnostics :=
                                          AddError (Diagnostics resp) ''Error creating JWT'' (Text err)\<rparr>, r)
                            | Inr jwt \<Rightarrow>
                                let data = data\<lparr>Token := Known jwt\<rparr>
                                in Return (resp\<lparr>State := Some (Set_AccessTokenResourceModel data),
                                                 Diagnostics := Append (Diagnostics resp) []\<rparr>, r)))))"

text \<open>\<open>AccessTokenResource.Read\<close>.\<close>

definition Read :: "AccessTokenResource \<Rightarrow> ReadRequest \<Rightarrow> Response \<Rightarrow> Response" where
  "Read r req resp =
     (let (ds, data) = Get_AccessTokenResourceModel (ReadRequest_State req);
          resp = resp\<lparr>Diagnostics := Append (Diagnostics resp) ds\<rparr>
      in if HasError (Diagnostics resp) then resp
         else resp\<lparr>State := Some (Set_AccessTokenResourceModel data),
                   Diagnostics := Append (Diagnostics resp) []\<rparr>)"

text \<open>
  \<open>State.SetAttribute\<close> writes one attribute of the state.  A path that names no
  attribute of the schema is a write error, and a value of another type than the
  attribute's is a conversion error; either way the state is left as it is.  Writing
  into a null state first makes every attribute null.
\<close>

definition StateWriteError :: diagnostic where
  "StateWriteError = NewErrorDiagnostic ''State Write Error'' (Text [])"

definition SetAttribute :: "(string \<times> attribute) list \<Rightarrow> object option \<Rightarrow> string \<Rightarrow>
    attr_value \<Rightarrow> diagnostic list \<times> object option" where
  "SetAttribute attrs raw n v =
     (case map_of attrs n of
        None \<Rightarrow> ([StateWriteError], raw)
      | Some a \<Rightarrow>
          if type_of v \<noteq> AttrType a then ([ValueConversionError], raw)
          else
            let obj = (case raw of
                         None \<Rightarrow> map_of (map (\<lambda>(n, a). (n, null_of (AttrType a))) attrs)
                       | Some obj \<Rightarrow> obj)
            in ([], Some (obj(n \<mapsto> v))))"

text \<open>
  \<open>resource.ImportStatePassthroughID\<close> writes the request's ID to the attribute at the
  given path; an empty path is an error of its own.
\<close>

definition ImportStatePassthroughID :: "(string \<times> attribute) list \<Rightarrow> string \<Rightarrow>
    ImportStateRequest \<Rightarrow> Response \<Rightarrow> Response" where
  "ImportStatePassthroughID attrs attrPath req resp =
     (let resp = (if attrPath = [] then
                    resp\<lparr>Diagnostics := AddError (Diagnostics resp)
                            ''Resource Import Passthrough Missing Attribute Path'' (Text [])\<rparr>
                  else resp);
          (ds, raw) = SetAttribute attrs (State resp) attrPath (StringValue (Known (ID req)))
      in resp\<lparr>State := raw, Diagnostics := Append (Diagnostics resp) ds\<rparr>)"

text \<open>\<open>AccessTokenResource.ImportState\<close>.\<close>

definition ImportState :: "AccessTokenResource \<Rightarrow> ImportStateRequest \<Rightarrow> Response \<Rightarrow> Response" where
  "ImportState r req resp = ImportStatePassthroughID Schema_Attributes ''id'' req resp"

subsection \<open>An example plan\<close>

text \<open>
  The access token of the documentation's example usage (room \<open>example_room\<close>, identity
  \<open>example_identity\<close>), with the three required flags set, as a plan for creation: the
  token is still unknown.  The validity is the argument.
\<close>

definition example_plan :: "string \<Rightarrow> object" where
  "example_plan vf =
     [''room'' \<mapsto> StringValue (Known ''example_room''),
      ''identity'' \<mapsto> StringValue (Known ''example_identity''),
      ''can_publish'' \<mapsto> BoolValue (Known True),
      ''can_publish_data'' \<mapsto> BoolValue (Known False),
      ''can_subscribe'' \<mapsto> BoolValue (Known True),
      ''valid_for'' \<mapsto> StringValue (Known vf),
      ''token'' \<mapsto> StringValue Unknown]"

section \<open>Diagnostics\<close>

lemma Severity_missing [simp]:
  "Severity api_key_missing = SeverityError" "Severity api_secret_missing = SeverityError"
  by (simp_all add: api_key_missing_def api_secret_missing_def NewErrorDiagnostic_def)

lemma missing_distinct: "api_key_missing \<noteq> api_secret_missing"
  by (simp add: api_key_missing_def api_secret_missing_def NewErrorDiagnostic_def)

section \<open>The provider's resources\<close>

text \<open>
  Claim C1 says that the list returned by the provider's \<open>Resources\<close> method contains the
  constructor of the access-token resource, the resource whose type name is the
  provider's type name followed by \<open>_access_token\<close>.  The code does not do that: the
  type name of the access-token resource is \<open>livekit_access_token\<close>, but the list holds
  the single constructor \<open>NewExampleResource\<close>, and \<open>NewAccessTokenResource\<close> is not
  in it.
\<close>

theorem Resources_omits_NewAccessTokenResource:
  "Metadata_TypeName provider_TypeName = ''livekit_access_token'' \<and>
   Resources = [NewExampleResource] \<and>
   NewAccessTokenResource \<notin> set Resources"
  by (simp add: Metadata_TypeName_def provider_TypeName_def Resources_def)

section \<open>Configuring the provider\<close>

text \<open>
  Claim C4: when the configuration has been read without error and both the resolved API
  key and the resolved API secret are empty, \<open>Configure\<close> appends two error
  diagnostics, the one for the key and the one for the secret, which differ, and leaves
  both data fields of the response as they were: no access token is built.
\<close>

theorem Configure_reports_both_missing:
  assumes get: "Get_LivekitProviderModel (Config req) = (ds, data)"
    and ok: "\<not> HasError (Append (cfg_Diagnostics resp) ds)"
    and key: "(if IsNull (ApiKey data) then Getenv env ''LIVEKIT_API_KEY''
               else ValueString (ApiKey data)) = []"
    and sec: "(if IsNull (ApiSecret data) then Getenv env ''LIVEKIT_API_SECRET''
               else ValueString (ApiSecret data)) = []"
  shows "cfg_Diagnostics (Configure env req resp) =
           Append (cfg_Diagnostics resp) ds @ [api_key_missing, api_secret_missing] \<and>
         api_key_missing \<noteq> api_secret_missing \<and>
         Severity api_key_missing = SeverityError \<and>
         Severity api_secret_missing = SeverityError \<and>
         ResourceData (Configure env req resp) = ResourceData resp \<and>
         DataSourceData (Configure env req resp) = DataSourceData resp"
proof -
  let ?d0 = "Append (cfg_Diagnostics resp) ds"
  have k: "api_key_missing \<notin> set ?d0" and s: "api_secret_missing \<notin> set ?d0"
    using ok by (auto simp: HasError_def)
  have e: "HasError (?d0 @ [api_key_missing, api_secret_missing])"
    by (simp add: HasError_def)
  from key have key': "(if \<not> IsNull (ApiKey data) then ValueString (ApiKey data)
                        else Getenv env ''LIVEKIT_API_KEY'') = []"
    by (simp split: if_splits)
  from sec have sec': "(if \<not> IsNull (ApiSecret data) then ValueString (ApiSecret data)
                        else Getenv env ''LIVEKIT_API_SECRET'') = []"
    by (simp split: if_splits)
  show ?thesis
    unfolding Configure_def get prod.case Let_def key' sec'
    using ok k s e missing_distinct by simp
qed

text \<open>The same at a configuration that sets neither attribute, in an empty environment.\<close>

theorem Configure_reports_both_missing_witness:
  "cfg_Diagnostics
     (Configure Map.empty
        \<lparr>Config = Some [''api_key'' \<mapsto> StringValue Null, ''api_secret'' \<mapsto> StringValue Null]\<rparr>
        \<lparr>cfg_Diagnostics = [], DataSourceData = None, ResourceData = None\<rparr>) =
     [api_key_missing, api_secret_missing] \<and>
   ResourceData
     (Configure Map.empty
        \<lparr>Config = Some [''api_key'' \<mapsto> StringValue Null, ''api_secret'' \<mapsto> StringValue Null]\<rparr>
        \<lparr>cfg_Diagnostics = [], DataSourceData = None, ResourceData = None\<rparr>) = None"
  using Configure_reports_both_missing
    [of "\<lparr>Config = Some [''api_key'' \<mapsto> StringValue Null, ''api_secret'' \<mapsto> StringValue Null]\<rparr>"
        "[]" "\<lparr>ApiKey = Null, ApiSecret = Null\<rparr>"
        "\<lparr>cfg_Diagnostics = [], DataSourceData = None, ResourceData = None\<rparr>" Map.empty]
  by (simp add: Get_LivekitProviderModel_def Getenv_def HasError_def)

text \<open>
  Claim C8: the key and the secret are resolved each on its own.  With the configuration
  read without error, the resolved key \<open>k\<close> is the configured \<open>api_key\<close> when that
  attribute is not null, and the value of \<open>LIVEKIT_API_KEY\<close> otherwise; likewise the
  secret \<open>s\<close> with \<open>api_secret\<close> and \<open>LIVEKIT_API_SECRET\<close>.  (An unknown attribute is
  not null and its string is empty.)  The key's error is reported exactly when \<open>k\<close> is
  empty, whatever the secret is, the secret's error exactly when \<open>s\<close> is empty, and when
  neither is empty the access token is built from \<open>k\<close> and \<open>s\<close>.
\<close>

theorem Configure_resolves_credentials:
  assumes get: "Get_LivekitProviderModel (Config req) = (ds, \<lparr>ApiKey = kcfg, ApiSecret = scfg\<rparr>)"
    and ok: "\<not> HasError (Append (cfg_Diagnostics resp) ds)"
    and k: "k = (case kcfg of Null \<Rightarrow> Getenv env ''LIVEKIT_API_KEY'' | Unknown \<Rightarrow> [] | Known v \<Rightarrow> v)"
    and s: "s = (case scfg of Null \<Rightarrow> Getenv env ''LIVEKIT_API_SECRET'' | Unknown \<Rightarrow> [] | Known v \<Rightarrow> v)"
  shows "(api_key_missing \<in> set (cfg_Diagnostics (Configure env req resp)) \<longleftrightarrow> k = []) \<and>
         (api_secret_missing \<in> set (cfg_Diagnostics (Configure env req resp)) \<longleftrightarrow> s = []) \<and>
         (k \<noteq> [] \<and> s \<noteq> [] \<longrightarrow>
            ResourceData (Configure env req resp) = Some (NewAccessToken k s) \<and>
            DataSourceData (Configure env req resp) = Some (NewAccessToken k s))"
proof -
  let ?d0 = "Append (cfg_Diagnostics resp) ds"
  have n: "api_key_missing \<notin> set ?d0" "api_secret_missing \<notin> set ?d0"
    using ok by (auto simp: HasError_def)
  have k': "(if \<not> IsNull kcfg then ValueString kcfg else Getenv env ''LIVEKIT_API_KEY'') = k"
    unfolding k by (cases kcfg) simp_all
  have s': "(if \<not> IsNull scfg then ValueString scfg else Getenv env ''LIVEKIT_API_SECRET'') = s"
    unfolding s by (cases scfg) simp_all
  have e: "HasError (xs @ [d]) = (HasError xs \<or> Severity d = SeverityError)" for xs d
    by (auto simp: HasError_def)
  show ?thesis
    unfolding Configure_def get prod.case Let_def LivekitProviderModel.simps k' s'
    using ok n missing_distinct missing_distinct [symmetric] by (simp add: e)
qed

text \<open>
  A configured key wins over the environment's, and a null secret falls back to the
  environment.
\<close>

theorem Configure_resolves_credentials_witness:
  "ResourceData
     (Configure [''LIVEKIT_API_KEY'' \<mapsto> ''envkey'', ''LIVEKIT_API_SECRET'' \<mapsto> ''envsecret'']
        \<lparr>Config = Some [''api_key'' \<mapsto> StringValue (Known ''cfgkey''),
                        ''api_secret'' \<mapsto> StringValue Null]\<rparr>
        \<lparr>cfg_Diagnostics = [], DataSourceData = None, ResourceData = None\<rparr>) =
   Some (NewAccessToken ''cfgkey'' ''envsecret'')"
  using Configure_resolves_credentials
    [of "\<lparr>Config = Some [''api_key'' \<mapsto> StringValue (Known ''cfgkey''),
                         ''api_secret'' \<mapsto> StringValue Null]\<rparr>"
        "[]" "Known ''cfgkey''" Null
        "\<lparr>cfg_Diagnostics = [], DataSourceData = None, ResourceData = None\<rparr>"
        "''cfgkey''"
        "[''LIVEKIT_API_KEY'' \<mapsto> ''envkey'', ''LIVEKIT_API_SECRET'' \<mapsto> ''envsecret'']"
        "''envsecret''"]
  by (simp add: Get_LivekitProviderModel_def Getenv_def HasError_def)

section \<open>Objects of the resource's schema\<close>

lemma conforms_SchemaD:
  assumes "conforms Schema_Attributes obj"
  obtains room ident cp cpd cs vf tok where
    "obj ''room'' = Some (StringValue room)"
    "obj ''identity'' = Some (StringValue ident)"
    "obj ''can_publish'' = Some (BoolValue cp)"
    "obj ''can_publish_data'' = Some (BoolValue cpd)"
    "obj ''can_subscribe'' = Some (BoolValue cs)"
    "obj ''valid_for'' = Some (StringValue vf)"
    "obj ''token'' = Some (StringValue tok)"
    "dom obj = {''room'', ''identity'', ''can_publish'', ''can_publish_data'',
                ''can_subscribe'', ''valid_for'', ''token''}"
proof -
  have ty: "type_of v = StringType \<longleftrightarrow> (\<exists>x. v = StringValue x)"
           "type_of v = BoolType \<longleftrightarrow> (\<exists>x. v = BoolValue x)" for v
    by (cases v; simp)+
  from assms show ?thesis
    unfolding conforms_def Schema_Attributes_def StringAttribute_def BoolAttribute_def
    by (auto simp: ty split: option.splits intro!: that)
qed

lemma Get_conforms:
  assumes "obj ''room'' = Some (StringValue room)"
    "obj ''identity'' = Some (StringValue ident)"
    "obj ''can_publish'' = Some (BoolValue cp)"
    "obj ''can_publish_data'' = Some (BoolValue cpd)"
    "obj ''can_subscribe'' = Some (BoolValue cs)"
    "obj ''valid_for'' = Some (StringValue vf)"
    "obj ''token'' = Some (StringValue tok)"
  shows "Get_AccessTokenResourceModel (Some obj) =
           ([], \<lparr>Room = room, Identity = ident, CanPublish = cp, CanPublishData = cpd,
                 CanSubscribe = cs, ValidFor = vf, Token = tok\<rparr>)"
  using assms by (simp add: Get_AccessTokenResourceModel_def)

lemma Set_Get_conforms:
  assumes "conforms Schema_Attributes obj"
  shows "Set_AccessTokenResourceModel (snd (Get_AccessTokenResourceModel (Some obj))) = obj"
proof -
  from assms obtain room ident cp cpd cs vf tok where
    f: "obj ''room'' = Some (StringValue room)"
    "obj ''identity'' = Some (StringValue ident)"
    "obj ''can_publish'' = Some (BoolValue cp)"
    "obj ''can_publish_data'' = Some (BoolValue cpd)"
    "obj ''can_subscribe'' = Some (BoolValue cs)"
    "obj ''valid_for'' = Some (StringValue vf)"
    "obj ''token'' = Some (StringValue tok)"
    and d: "dom obj = {''room'', ''identity'', ''can_publish'', ''can_publish_data'',
                ''can_subscribe'', ''valid_for'', ''token''}"
    by (rule conforms_SchemaD)
  show ?thesis
  proof (rule ext)
    fix n
    show "Set_AccessTokenResourceModel (snd (Get_AccessTokenResourceModel (Some obj))) n = obj n"
    proof (cases "n \<in> dom obj")
      case True
      then show ?thesis
        unfolding d Get_conforms [OF f] Set_AccessTokenResourceModel_def
        using f by auto
    next
      case False
      then have "obj n = None" by blast
      moreover from False have "n \<notin> {''room'', ''identity'', ''can_publish'', ''can_publish_data'',
                ''can_subscribe'', ''valid_for'', ''token''}" unfolding d .
      ultimately show ?thesis
        unfolding Get_conforms [OF f] Set_AccessTokenResourceModel_def by simp
    qed
  qed
qed

section \<open>Read\<close>

text \<open>
  Claim C7: for a prior state that fits the schema, \<open>Read\<close> writes back that very state,
  so every attribute, the token among them, is as it was, and it adds no diagnostic.
  \<open>Read\<close> has neither the signer nor the environment among its arguments: nothing is
  signed or looked up.
\<close>

theorem Read_returns_prior_state:
  assumes c: "conforms Schema_Attributes s"
    and ok: "\<not> HasError (Diagnostics resp)"
  shows "State (Read r \<lparr>ReadRequest_State = Some s\<rparr> resp) = Some s \<and>
         Diagnostics (Read r \<lparr>ReadRequest_State = Some s\<rparr> resp) = Diagnostics resp"
proof -
  from c obtain data where g: "Get_AccessTokenResourceModel (Some s) = ([], data)"
    by (elim conforms_SchemaD) (simp add: Get_conforms)
  from Set_Get_conforms [OF c] g have "Set_AccessTokenResourceModel data = s" by simp
  with ok show ?thesis by (simp add: Read_def g)
qed

text \<open>Reading a stored token.\<close>

theorem Read_returns_prior_state_witness:
  "State (Read \<lparr>apiKeys = None\<rparr>
            \<lparr>ReadRequest_State = Some
               [''room'' \<mapsto> StringValue (Known ''lobby''),
                ''identity'' \<mapsto> StringValue (Known ''alice''),
                ''can_publish'' \<mapsto> BoolValue (Known True),
                ''can_publish_data'' \<mapsto> BoolValue (Known False),
                ''can_subscribe'' \<mapsto> BoolValue (Known True),
                ''valid_for'' \<mapsto> StringValue (Known ''1h''),
                ''token'' \<mapsto> StringValue (Known ''jwt'')]\<rparr>
            \<lparr>State = None, Diagnostics = []\<rparr>) =
   Some [''room'' \<mapsto> StringValue (Known ''lobby''),
         ''identity'' \<mapsto> StringValue (Known ''alice''),
         ''can_publish'' \<mapsto> BoolValue (Known True),
         ''can_publish_data'' \<mapsto> BoolValue (Known False),
         ''can_subscribe'' \<mapsto> BoolValue (Known True),
         ''valid_for'' \<mapsto> StringValue (Known ''1h''),
         ''token'' \<mapsto> StringValue (Known ''jwt'')]"
proof -
  let ?s = "[''room'' \<mapsto> StringValue (Known ''lobby''),
             ''identity'' \<mapsto> StringValue (Known ''alice''),
             ''can_publish'' \<mapsto> BoolValue (Known True),
             ''can_publish_data'' \<mapsto> BoolValue (Known False),
             ''can_subscribe'' \<mapsto> BoolValue (Known True),
             ''valid_for'' \<mapsto> StringValue (Known ''1h''),
             ''token'' \<mapsto> StringValue (Known ''jwt'')]"
  have c: "conforms Schema_Attributes ?s"
    by (auto simp: conforms_def Schema_Attributes_def StringAttribute_def BoolAttribute_def)
  have ok: "\<not> HasError (Diagnostics \<lparr>State = None, Diagnostics = []\<rparr>)"
    by (simp add: HasError_def)
  from Read_returns_prior_state [OF c ok, of "\<lparr>apiKeys = None\<rparr>"] show ?thesis by simp
qed

section \<open>ImportState\<close>

lemma HasError_Append1:
  "HasError (if d \<in> set diags then diags else diags @ [d]) \<longleftrightarrow>
     HasError diags \<or> Severity d = SeverityError"
  by (auto simp: HasError_def)

text \<open>
  Claim C9 says that import passes the identifier through as the resource's \<open>id\<close>
  attribute, which the schema must therefore declare.  The schema declares no attribute
  \<open>id\<close>, so for every identifier the write fails: \<open>ImportState\<close> reports an error and
  leaves the state as it was.
\<close>

theorem ImportState_fails:
  "''id'' \<notin> set (map fst Schema_Attributes) \<and>
   HasError (Diagnostics (ImportState r req resp)) \<and>
   State (ImportState r req resp) = State resp"
  by (simp add: ImportState_def ImportStatePassthroughID_def SetAttribute_def
        Schema_Attributes_def HasError_Append1 StateWriteError_def NewErrorDiagnostic_def)


section \<open>Replacement on change\<close>

lemma RequiresReplace_paths_iff:
  "n \<in> set (RequiresReplace_paths attrs config state plan) \<longleftrightarrow>
     (\<exists>a. (n, a) \<in> set attrs \<and> snd (attribute_plan a n config state plan))"
  by (force simp: RequiresReplace_paths_def)

lemma attribute_plan_RequiresReplace:
  assumes "PlanModifiers a = [RequiresReplace]" and "plan n = Some v" and "state n = Some w"
  shows "snd (attribute_plan a n config (Some state) (Some plan)) = (v \<noteq> w)"
  using assms by (simp add: attribute_plan_def value_at_def)

lemma Schema_six:
  assumes "n \<in> {''room'', ''identity'', ''can_publish'', ''can_publish_data'',
                  ''can_subscribe'', ''valid_for''}"
  shows "\<exists>a. (n, a) \<in> set Schema_Attributes \<and> PlanModifiers a = [RequiresReplace]"
proof -
  have "\<exists>a. map_of Schema_Attributes n = Some a \<and> PlanModifiers a = [RequiresReplace]"
    using assms
    by (elim insertE emptyE)
       (simp_all add: Schema_Attributes_def StringAttribute_def BoolAttribute_def)
  then show ?thesis by (blast dest: map_of_SomeD)
qed

text \<open>
  Claim C2: in the schema each of \<open>room\<close>, \<open>identity\<close>, \<open>can_publish\<close>,
  \<open>can_publish_data\<close>, \<open>can_subscribe\<close> and \<open>valid_for\<close> carries the plan modifier
  \<open>RequiresReplace\<close>, and \<open>token\<close> carries \<open>UseStateForUnknown\<close>.  Hence, for a state
  and a plan of the schema, each of the six attributes whose planned value differs from
  the state's is among the attributes that require replacement, and an unknown planned
  token becomes the state's token.
\<close>

theorem Schema_requires_replace:
  assumes s: "conforms Schema_Attributes state" and p: "conforms Schema_Attributes plan"
  shows "map (\<lambda>(n, a). (n, PlanModifiers a)) Schema_Attributes =
           [(''room'', [RequiresReplace]), (''identity'', [RequiresReplace]),
            (''can_publish'', [RequiresReplace]), (''can_publish_data'', [RequiresReplace]),
            (''can_subscribe'', [RequiresReplace]), (''valid_for'', [RequiresReplace]),
            (''token'', [UseStateForUnknown])] \<and>
         (\<forall>n \<in> {''room'', ''identity'', ''can_publish'', ''can_publish_data'',
                  ''can_subscribe'', ''valid_for''}.
            plan n \<noteq> state n \<longrightarrow>
              n \<in> set (RequiresReplace_paths Schema_Attributes config (Some state) (Some plan))) \<and>
         (plan ''token'' = Some (StringValue Unknown) \<and>
          state ''token'' = Some (StringValue (Known tok)) \<and>
          \<not> IsUnknown_value (value_at StringType config ''token'') \<longrightarrow>
            modified_plan Schema_Attributes config (Some state) (Some plan) ''token'' =
              Some (StringValue (Known tok)))"
proof -
  have a: "map (\<lambda>(n, a). (n, PlanModifiers a)) Schema_Attributes =
           [(''room'', [RequiresReplace]), (''identity'', [RequiresReplace]),
            (''can_publish'', [RequiresReplace]), (''can_publish_data'', [RequiresReplace]),
            (''can_subscribe'', [RequiresReplace]), (''valid_for'', [RequiresReplace]),
            (''token'', [UseStateForUnknown])]"
    by (simp add: Schema_Attributes_def StringAttribute_def BoolAttribute_def)
  have b: "n \<in> set (RequiresReplace_paths Schema_Attributes config (Some state) (Some plan))"
    if n: "n \<in> {''room'', ''identity'', ''can_publish'', ''can_publish_data'',
                  ''can_subscribe'', ''valid_for''}"
      and ne: "plan n \<noteq> state n" for n
  proof -
    from Schema_six [OF n] obtain a where
      a: "(n, a) \<in> set Schema_Attributes" "PlanModifiers a = [RequiresReplace]" by blast
    from a(1) have "n \<in> set (map fst Schema_Attributes)" by force
    with s p have "n \<in> dom state" "n \<in> dom plan" by (simp_all add: conforms_def)
    then obtain v w where vw: "plan n = Some v" "state n = Some w" by blast
    with ne have "v \<noteq> w" by simp
    with attribute_plan_RequiresReplace [of a plan n v state w config] a vw show ?thesis
      unfolding RequiresReplace_paths_iff by blast
  qed
  have c: "modified_plan Schema_Attributes config (Some state) (Some plan) ''token'' =
              Some (StringValue (Known tok))"
    if "plan ''token'' = Some (StringValue Unknown)"
      and "state ''token'' = Some (StringValue (Known tok))"
      and "\<not> IsUnknown_value (value_at StringType config ''token'')"
  proof -
    have v: "value_at ty (Some obj) n = (case obj n of None \<Rightarrow> null_of ty | Some v \<Rightarrow> v)"
      for ty obj n by (simp add: value_at_def)
    from that show ?thesis
      by (simp add: modified_plan_def Schema_Attributes_def StringAttribute_def BoolAttribute_def
            attribute_plan_def v)
  qed
  from a b c show ?thesis by blast
qed


text \<open>A plan that renames the room of an existing token, with the token still unknown.\<close>

theorem Schema_requires_replace_witness:
  "''room'' \<in> set (RequiresReplace_paths Schema_Attributes None
      (Some [''room'' \<mapsto> StringValue (Known ''lobby''),
             ''identity'' \<mapsto> StringValue (Known ''alice''),
             ''can_publish'' \<mapsto> BoolValue (Known True),
             ''can_publish_data'' \<mapsto> BoolValue (Known False),
             ''can_subscribe'' \<mapsto> BoolValue (Known True),
             ''valid_for'' \<mapsto> StringValue (Known ''1h''),
             ''token'' \<mapsto> StringValue (Known ''jwt'')])
      (Some [''room'' \<mapsto> StringValue (Known ''hall''),
             ''identity'' \<mapsto> StringValue (Known ''alice''),
             ''can_publish'' \<mapsto> BoolValue (Known True),
             ''can_publish_data'' \<mapsto> BoolValue (Known False),
             ''can_subscribe'' \<mapsto> BoolValue (Known True),
             ''valid_for'' \<mapsto> StringValue (Known ''1h''),
             ''token'' \<mapsto> StringValue Unknown])) \<and>
   modified_plan Schema_Attributes None
      (Some [''room'' \<mapsto> StringValue (Known ''lobby''),
             ''identity'' \<mapsto> StringValue (Known ''alice''),
             ''can_publish'' \<mapsto> BoolValue (Known True),
             ''can_publish_data'' \<mapsto> BoolValue (Known False),
             ''can_subscribe'' \<mapsto> BoolValue (Known True),
             ''valid_for'' \<mapsto> StringValue (Known ''1h''),
             ''token'' \<mapsto> StringValue (Known ''jwt'')])
      (Some [''room'' \<mapsto> StringValue (Known ''hall''),
             ''identity'' \<mapsto> StringValue (Known ''alice''),
             ''can_publish'' \<mapsto> BoolValue (Known True),
             ''can_publish_data'' \<mapsto> BoolValue (Known False),
             ''can_subscribe'' \<mapsto> BoolValue (Known True),
             ''valid_for'' \<mapsto> StringValue (Known ''1h''),
             ''token'' \<mapsto> StringValue Unknown]) ''token'' =
     Some (StringValue (Known ''jwt''))"
proof -
  let ?s = "[''room'' \<mapsto> StringValue (Known ''lobby''),
             ''identity'' \<mapsto> StringValue (Known ''alice''),
             ''can_publish'' \<mapsto> BoolValue (Known True),
             ''can_publish_data'' \<mapsto> BoolValue (Known False),
             ''can_subscribe'' \<mapsto> BoolValue (Known True),
             ''valid_for'' \<mapsto> StringValue (Known ''1h''),
             ''token'' \<mapsto> StringValue (Known ''jwt'')]"
  let ?p = "[''room'' \<mapsto> StringValue (Known ''hall''),
             ''identity'' \<mapsto> StringValue (Known ''alice''),
             ''can_publish'' \<mapsto> BoolValue (Known True),
             ''can_publish_data'' \<mapsto> BoolValue (Known False),
             ''can_subscribe'' \<mapsto> BoolValue (Known True),
             ''valid_for'' \<mapsto> StringValue (Known ''1h''),
             ''token'' \<mapsto> StringValue Unknown]"
  have cs: "conforms Schema_Attributes ?s"
    by (auto simp: conforms_def Schema_Attributes_def StringAttribute_def BoolAttribute_def)
  have cp: "conforms Schema_Attributes ?p"
    by (auto simp: conforms_def Schema_Attributes_def StringAttribute_def BoolAttribute_def)
  note t = Schema_requires_replace [OF cs cp, of None "''jwt''"]
  have 1: "''room'' \<in> set (RequiresReplace_paths Schema_Attributes None (Some ?s) (Some ?p))"
    using t [THEN conjunct2, THEN conjunct1, THEN bspec, of "''room''"] by simp
  have 2: "modified_plan Schema_Attributes None (Some ?s) (Some ?p) ''token'' =
             Some (StringValue (Known ''jwt''))"
    using t [THEN conjunct2, THEN conjunct2] by (simp add: value_at_def)
  from 1 2 show ?thesis by (rule conjI)
qed

section \<open>Create\<close>

text \<open>
  The five ways through \<open>Create\<close>, each for a plan read as \<open>(ds, data)\<close>: the read
  failed, the duration did not parse, the resource was never configured, the signer
  failed, the signer returned a token.  Logging is left out.
\<close>

lemma AddError_no_error:
  "\<not> HasError diags \<Longrightarrow> AddError diags summary d = diags @ [NewErrorDiagnostic summary d]"
  by (auto simp: AddError_def HasError_def NewErrorDiagnostic_def)

lemma HasError_snoc_error: "HasError (diags @ [NewErrorDiagnostic summary d])"
  by (simp add: HasError_def NewErrorDiagnostic_def)

lemma Create_Get_error:
  assumes "Get_AccessTokenResourceModel (Plan req) = (ds, data)"
    and "HasError (Append (Diagnostics resp) ds)"
  shows "Create ToJWT r req resp =
           Return (resp\<lparr>Diagnostics := Append (Diagnostics resp) ds\<rparr>, r)"
  using assms by (simp add: Create_def)

lemma Create_parse_error:
  assumes "Get_AccessTokenResourceModel (Plan req) = (ds, data)"
    and "\<not> HasError (Append (Diagnostics resp) ds)"
    and "ParseDuration (ValueString (ValidFor data)) = Inl err"
  shows "Create ToJWT r req resp =
           Return (resp\<lparr>Diagnostics := Append (Diagnostics resp) ds @
                      [NewErrorDiagnostic ''Invalid valid_for '' (DurationErrorText err)]\<rparr>, r)"
  using assms by (simp add: Create_def AddError_no_error)

lemma Create_nil:
  assumes "Get_AccessTokenResourceModel (Plan req) = (ds, data)"
    and "\<not> HasError (Append (Diagnostics resp) ds)"
    and "ParseDuration (ValueString (ValidFor data)) = Inr d"
    and "apiKeys r = None"
  shows "Create ToJWT r req resp = Panic"
  using assms by (simp add: Create_def)

lemma Create_sign_error:
  assumes "Get_AccessTokenResourceModel (Plan req) = (ds, data)"
    and "\<not> HasError (Append (Diagnostics resp) ds)"
    and "ParseDuration (ValueString (ValidFor data)) = Inr d"
    and "apiKeys r = Some t"
    and "at = SetValidFor
                (SetIdentity
                   (AddGrant t \<lparr>grant_Room = ValueString (Room data),
                                 grant_CanPublish = ValueBoolPointer (CanPublish data),
                                 grant_CanPublishData = ValueBoolPointer (CanPublishData data),
                                 grant_CanSubscribe = ValueBoolPointer (CanSubscribe data),
                                 grant_RoomJoin = True\<rparr>)
                   (ValueString (Identity data))) d"
    and "ToJWT at = Inl e"
  shows "Create ToJWT r req resp =
           Return (resp\<lparr>Diagnostics := Append (Diagnostics resp) ds @
                      [NewErrorDiagnostic ''Error creating JWT'' (Text e)]\<rparr>,
                   r\<lparr>apiKeys := Some at\<rparr>)"
  using assms by (simp add: Create_def AddError_no_error)

lemma Create_signed:
  assumes "Get_AccessTokenResourceModel (Plan req) = (ds, data)"
    and "\<not> HasError (Append (Diagnostics resp) ds)"
    and "ParseDuration (ValueString (ValidFor data)) = Inr d"
    and "apiKeys r = Some t"
    and "at = SetValidFor
                (SetIdentity
                   (AddGrant t \<lparr>grant_Room = ValueString (Room data),
                                 grant_CanPublish = ValueBoolPointer (CanPublish data),
                                 grant_CanPublishData = ValueBoolPointer (CanPublishData data),
                                 grant_CanSubscribe = ValueBoolPointer (CanSubscribe data),
                                 grant_RoomJoin = True\<rparr>)
                   (ValueString (Identity data))) d"
    and "ToJWT at = Inr jwt"
  shows "Create ToJWT r req resp =
           Return (resp\<lparr>State := Some (Set_AccessTokenResourceModel (data\<lparr>Token := Known jwt\<rparr>)),
                        Diagnostics := Append (Diagnostics resp) ds\<rparr>,
                   r\<lparr>apiKeys := Some at\<rparr>)"
  using assms by (simp add: Create_def)

subsection \<open>Durations\<close>

text \<open>The definitions that evaluate \<open>ParseDuration\<close> on a literal, and some values.\<close>

lemmas ParseDuration_eval = ParseDuration_def ParseDuration_loop.simps parse_component_def
  leadingInt_def leadingFraction_def unitMap_def unit_char_def Let_def float64_of_uint64_def
  round64_def round_nearest_even_def bitlen.simps

lemma ParseDuration_1h: "ParseDuration ''1h'' = Inr 3600000000000"
  by (simp add: ParseDuration_eval)

lemma ParseDuration_30m: "ParseDuration ''30m'' = Inr 1800000000000"
  by (simp add: ParseDuration_eval)

lemma ParseDuration_1h30m: "ParseDuration ''1h30m'' = Inr 5400000000000"
  by (simp add: ParseDuration_eval)

lemma ParseDuration_tomorrow: "ParseDuration ''tomorrow'' = Inl (InvalidDuration ''tomorrow'')"
  by (simp add: ParseDuration_eval)

lemma ParseDuration_empty: "ParseDuration [] = Inl (InvalidDuration [])"
  by (simp add: ParseDuration_eval)

lemma ParseDuration_1x: "ParseDuration ''1x'' = Inl (UnknownUnit ''x'' ''1x'')"
  by (simp add: ParseDuration_eval)





subsection \<open>A plan of the schema\<close>

lemma Append_Nil [simp]: "Append diags [] = diags"
  by simp

lemma Set_Token:
  "Set_AccessTokenResourceModel (data\<lparr>Token := tk\<rparr>) =
     (Set_AccessTokenResourceModel data)(''token'' \<mapsto> StringValue tk)"
  by (simp add: Set_AccessTokenResourceModel_def)

lemma conforms_Get:
  assumes "conforms Schema_Attributes plan"
  obtains data where
    "Get_AccessTokenResourceModel (Some plan) = ([], data)"
    "plan ''room'' = Some (StringValue (Room data))"
    "plan ''identity'' = Some (StringValue (Identity data))"
    "plan ''can_publish'' = Some (BoolValue (CanPublish data))"
    "plan ''can_publish_data'' = Some (BoolValue (CanPublishData data))"
    "plan ''can_subscribe'' = Some (BoolValue (CanSubscribe data))"
    "plan ''valid_for'' = Some (StringValue (ValidFor data))"
    "Set_AccessTokenResourceModel data = plan"
proof -
  from assms obtain room ident cp cpd cs vf tok where
    f: "plan ''room'' = Some (StringValue room)"
    "plan ''identity'' = Some (StringValue ident)"
    "plan ''can_publish'' = Some (BoolValue cp)"
    "plan ''can_publish_data'' = Some (BoolValue cpd)"
    "plan ''can_subscribe'' = Some (BoolValue cs)"
    "plan ''valid_for'' = Some (StringValue vf)"
    "plan ''token'' = Some (StringValue tok)"
    by (rule conforms_SchemaD)
  let ?data = "\<lparr>Room = room, Identity = ident, CanPublish = cp, CanPublishData = cpd,
                 CanSubscribe = cs, ValidFor = vf, Token = tok\<rparr>"
  have g: "Get_AccessTokenResourceModel (Some plan) = ([], ?data)" by (rule Get_conforms [OF f])
  from Set_Get_conforms [OF assms] g have "Set_AccessTokenResourceModel ?data = plan" by simp
  with g f show ?thesis by (intro that [of ?data]) simp_all
qed

lemma Return_Diagnostics_eq:
  "Return (a, ra) = Return (b, rb) \<Longrightarrow> Diagnostics a = Diagnostics b"
  by simp

lemma conforms_example_plan: "conforms Schema_Attributes (example_plan vf)"
  by (auto simp: conforms_def example_plan_def Schema_Attributes_def StringAttribute_def
        BoolAttribute_def)

lemma Get_example_plan:
  "Get_AccessTokenResourceModel (Some (example_plan vf)) =
     ([], \<lparr>Room = Known ''example_room'', Identity = Known ''example_identity'',
           CanPublish = Known True, CanPublishData = Known False, CanSubscribe = Known True,
           ValidFor = Known vf, Token = Unknown\<rparr>)"
  by (simp add: Get_AccessTokenResourceModel_def example_plan_def)

lemma not_HasError_Nil [simp]: "\<not> HasError []"
  by (simp add: HasError_def)

lemma Get_Plan_example:
  "Get_AccessTokenResourceModel (Plan \<lparr>Plan = Some (example_plan vf)\<rparr>) =
     ([], \<lparr>Room = Known ''example_room'', Identity = Known ''example_identity'',
           CanPublish = Known True, CanPublishData = Known False, CanSubscribe = Known True,
           ValidFor = Known vf, Token = Unknown\<rparr>)"
  by (simp add: Get_example_plan)

subsection \<open>Atomicity\<close>

text \<open>
  Claim C6: \<open>Create\<close> writes all of the state or none of it.  When the \<open>valid_for\<close>
  string does not parse, and when the signer returns an error, \<open>Create\<close> returns with an
  error among the diagnostics and the state of the response is the one passed in.
  Whenever \<open>Create\<close> returns with another state than the one passed in, there is no
  error, the signer has returned a token for the access token the resource now holds, and
  the state is the model with that token stored in it.
\<close>

theorem Create_atomic:
  assumes get: "Get_AccessTokenResourceModel (Plan req) = (ds, data)"
  shows "(\<not> HasError (Append (Diagnostics resp) ds) \<and>
          isl (ParseDuration (ValueString (ValidFor data))) \<longrightarrow>
            (\<exists>resp'. Create ToJWT r req resp = Return (resp', r) \<and>
               HasError (Diagnostics resp') \<and> State resp' = State resp)) \<and>
         (\<forall>d t. \<not> HasError (Append (Diagnostics resp) ds) \<and>
            ParseDuration (ValueString (ValidFor data)) = Inr d \<and> apiKeys r = Some t \<and>
            isl (ToJWT (SetValidFor
                (SetIdentity
                   (AddGrant t \<lparr>grant_Room = ValueString (Room data),
                                 grant_CanPublish = ValueBoolPointer (CanPublish data),
                                 grant_CanPublishData = ValueBoolPointer (CanPublishData data),
                                 grant_CanSubscribe = ValueBoolPointer (CanSubscribe data),
                                 grant_RoomJoin = True\<rparr>)
                   (ValueString (Identity data))) d)) \<longrightarrow>
            (\<exists>resp' r'. Create ToJWT r req resp = Return (resp', r') \<and>
               HasError (Diagnostics resp') \<and> State resp' = State resp)) \<and>
         (\<forall>resp' r'. Create ToJWT r req resp = Return (resp', r') \<and> State resp' \<noteq> State resp \<longrightarrow>
            \<not> HasError (Diagnostics resp') \<and>
            (\<exists>at jwt. apiKeys r' = Some at \<and> ToJWT at = Inr jwt \<and>
               State resp' = Some (Set_AccessTokenResourceModel (data\<lparr>Token := Known jwt\<rparr>))))"
proof (intro conjI allI impI)
  assume a: "\<not> HasError (Append (Diagnostics resp) ds) \<and>
             isl (ParseDuration (ValueString (ValidFor data)))"
  then obtain err where "ParseDuration (ValueString (ValidFor data)) = Inl err"
    by (cases "ParseDuration (ValueString (ValidFor data))") auto
  moreover from a have ok: "\<not> HasError (Append (Diagnostics resp) ds)" by simp
  ultimately show "\<exists>resp'. Create ToJWT r req resp = Return (resp', r) \<and>
                 HasError (Diagnostics resp') \<and> State resp' = State resp"
    by (simp add: Create_parse_error [OF get ok] HasError_snoc_error)
next
  fix d t
  let ?at = "SetValidFor
                (SetIdentity
                   (AddGrant t \<lparr>grant_Room = ValueString (Room data),
                                 grant_CanPublish = ValueBoolPointer (CanPublish data),
                                 grant_CanPublishData = ValueBoolPointer (CanPublishData data),
                                 grant_CanSubscribe = ValueBoolPointer (CanSubscribe data),
                                 grant_RoomJoin = True\<rparr>)
                   (ValueString (Identity data))) d"
  assume a: "\<not> HasError (Append (Diagnostics resp) ds) \<and>
            ParseDuration (ValueString (ValidFor data)) = Inr d \<and> apiKeys r = Some t \<and>
            isl (ToJWT ?at)"
  then obtain e where e: "ToJWT ?at = Inl e" by (cases "ToJWT ?at") auto
  from a have ok: "\<not> HasError (Append (Diagnostics resp) ds)"
    and pd: "ParseDuration (ValueString (ValidFor data)) = Inr d"
    and ak: "apiKeys r = Some t" by simp_all
  show "\<exists>resp' r'. Create ToJWT r req resp = Return (resp', r') \<and>
               HasError (Diagnostics resp') \<and> State resp' = State resp"
    by (simp add: Create_sign_error [where ToJWT = ToJWT, OF get ok pd ak refl e] HasError_snoc_error)
next
  fix resp' r'
  assume a: "Create ToJWT r req resp = Return (resp', r') \<and> State resp' \<noteq> State resp"
  let ?D = "Append (Diagnostics resp) ds"
  have main: "\<not> HasError (Diagnostics resp') \<and>
            (\<exists>at jwt. apiKeys r' = Some at \<and> ToJWT at = Inr jwt \<and>
               State resp' = Some (Set_AccessTokenResourceModel (data\<lparr>Token := Known jwt\<rparr>)))"
  proof (cases "HasError ?D")
    case True
    from a show ?thesis by (auto simp: Create_Get_error [OF get True])
  next
    case ok: False
    show ?thesis
    proof (cases "ParseDuration (ValueString (ValidFor data))")
      case (Inl err)
      from a show ?thesis by (auto simp: Create_parse_error [OF get ok Inl])
    next
      case (Inr d)
      show ?thesis
      proof (cases "apiKeys r")
        case None
        from a show ?thesis by (auto simp: Create_nil [OF get ok Inr None])
      next
        case (Some t)
        let ?at = "SetValidFor
                (SetIdentity
                   (AddGrant t \<lparr>grant_Room = ValueString (Room data),
                                 grant_CanPublish = ValueBoolPointer (CanPublish data),
                                 grant_CanPublishData = ValueBoolPointer (CanPublishData data),
                                 grant_CanSubscribe = ValueBoolPointer (CanSubscribe data),
                                 grant_RoomJoin = True\<rparr>)
                   (ValueString (Identity data))) d"
        show ?thesis
        proof (cases "ToJWT ?at")
          case (Inl e)
          from a show ?thesis by (auto simp: Create_sign_error [where ToJWT = ToJWT, OF get ok Inr Some refl Inl])
        next
          case jwt: (Inr jwt)
          from a ok jwt show ?thesis
            by (auto simp: Create_signed [where ToJWT = ToJWT, OF get ok Inr Some refl jwt])
        qed
      qed
    qed
  qed
  from main show "\<not> HasError (Diagnostics resp')" by (rule conjunct1)
  from main show "\<exists>at jwt. apiKeys r' = Some at \<and> ToJWT at = Inr jwt \<and>
               State resp' = Some (Set_AccessTokenResourceModel (data\<lparr>Token := Known jwt\<rparr>))"
    by (rule conjunct2)
qed


text \<open>
  The example token with a validity that does not parse, and with a signer that refuses:
  an error and no state, both times.
\<close>

theorem Create_atomic_witness:
  "(\<exists>resp'. Create (\<lambda>at. Inr ''jwt'') \<lparr>apiKeys = None\<rparr>
              \<lparr>Plan = Some (example_plan ''tomorrow'')\<rparr> \<lparr>State = None, Diagnostics = []\<rparr> =
            Return (resp', \<lparr>apiKeys = None\<rparr>) \<and>
            HasError (Diagnostics resp') \<and> State resp' = None) \<and>
   (\<exists>resp' r'. Create (\<lambda>at. Inl ''keys are missing'') \<lparr>apiKeys = Some (NewAccessToken [] [])\<rparr>
              \<lparr>Plan = Some (example_plan ''1h'')\<rparr> \<lparr>State = None, Diagnostics = []\<rparr> =
            Return (resp', r') \<and>
            HasError (Diagnostics resp') \<and> State resp' = None)"
proof -
  let ?resp = "\<lparr>State = None, Diagnostics = []\<rparr>"
  note a = Create_atomic [OF Get_Plan_example, of ?resp "''tomorrow''" "\<lambda>at. Inr ''jwt''"
      "\<lparr>apiKeys = None\<rparr>", THEN conjunct1]
  note b = Create_atomic [OF Get_Plan_example, of ?resp "''1h''" "\<lambda>at. Inl ''keys are missing''"
      "\<lparr>apiKeys = Some (NewAccessToken [] [])\<rparr>", THEN conjunct2, THEN conjunct1,
      THEN spec, THEN spec, of "3600000000000" "NewAccessToken [] []"]
  from a have 1: "\<exists>resp'. Create (\<lambda>at. Inr ''jwt'') \<lparr>apiKeys = None\<rparr>
              \<lparr>Plan = Some (example_plan ''tomorrow'')\<rparr> ?resp =
            Return (resp', \<lparr>apiKeys = None\<rparr>) \<and>
            HasError (Diagnostics resp') \<and> State resp' = None"
    by (simp add: ParseDuration_tomorrow)
  from b have 2: "\<exists>resp' r'. Create (\<lambda>at. Inl ''keys are missing'')
              \<lparr>apiKeys = Some (NewAccessToken [] [])\<rparr>
              \<lparr>Plan = Some (example_plan ''1h'')\<rparr> ?resp =
            Return (resp', r') \<and>
            HasError (Diagnostics resp') \<and> State resp' = None"
    by (simp add: ParseDuration_1h)
  from 1 2 show ?thesis by (rule conjI)
qed

subsection \<open>A validity that does not parse\<close>

text \<open>
  Claim C3: for every plan of the schema, passed with a response that holds no error,
  \<open>Create\<close> returns with the error \<open>Invalid valid_for\<close> added, the state untouched and
  the resource as it was, exactly when the plan's \<open>valid_for\<close> string does not parse as a
  duration.  The strings \<open>1h\<close>, \<open>30m\<close> and \<open>1h30m\<close> parse; \<open>tomorrow\<close>, the
  empty string and \<open>1x\<close> do not.
\<close>

theorem Create_invalid_duration:
  assumes c: "conforms Schema_Attributes plan"
    and vf: "plan ''valid_for'' = Some (StringValue vf)"
    and ok: "\<not> HasError (Diagnostics resp)"
  shows "(isl (ParseDuration (ValueString vf)) \<longleftrightarrow>
           (\<exists>err. Create ToJWT r \<lparr>Plan = Some plan\<rparr> resp =
              Return (resp\<lparr>Diagnostics := Diagnostics resp @
                         [NewErrorDiagnostic ''Invalid valid_for '' (DurationErrorText err)]\<rparr>, r))) \<and>
         \<not> isl (ParseDuration ''1h'') \<and> \<not> isl (ParseDuration ''30m'') \<and>
         \<not> isl (ParseDuration ''1h30m'') \<and>
         isl (ParseDuration ''tomorrow'') \<and> isl (ParseDuration []) \<and> isl (ParseDuration ''1x'')"
proof -
  from c obtain data where
    get: "Get_AccessTokenResourceModel (Plan \<lparr>Plan = Some plan\<rparr>) = ([], data)"
    and v: "plan ''valid_for'' = Some (StringValue (ValidFor data))"
    by (rule conforms_Get) simp
  from v vf have vd: "ValidFor data = vf" by simp
  from ok have ok': "\<not> HasError (Append (Diagnostics resp) [])" by simp
  let ?R = "\<lambda>err. Return (resp\<lparr>Diagnostics := Diagnostics resp @
                         [NewErrorDiagnostic ''Invalid valid_for '' (DurationErrorText err)]\<rparr>, r)"
  have "isl (ParseDuration (ValueString vf)) \<longleftrightarrow>
          (\<exists>err. Create ToJWT r \<lparr>Plan = Some plan\<rparr> resp = ?R err)"
  proof (cases "ParseDuration (ValueString vf)")
    case (Inl err)
    with Create_parse_error [OF get ok'] vd show ?thesis by auto
  next
    case (Inr d)
    have "Create ToJWT r \<lparr>Plan = Some plan\<rparr> resp \<noteq> ?R err" for err
    proof (cases "apiKeys r")
      case None
      with Create_nil [OF get ok'] Inr vd show ?thesis by simp
    next
      case (Some t)
      let ?at = "SetValidFor
                (SetIdentity
                   (AddGrant t \<lparr>grant_Room = ValueString (Room data),
                                 grant_CanPublish = ValueBoolPointer (CanPublish data),
                                 grant_CanPublishData = ValueBoolPointer (CanPublishData data),
                                 grant_CanSubscribe = ValueBoolPointer (CanSubscribe data),
                                 grant_RoomJoin = True\<rparr>)
                   (ValueString (Identity data))) d"
      from Inr vd have pd: "ParseDuration (ValueString (ValidFor data)) = Inr d" by simp
      show ?thesis
      proof (cases "ToJWT ?at")
        case (Inl e)
        show ?thesis
        proof
          assume "Create ToJWT r \<lparr>Plan = Some plan\<rparr> resp = ?R err"
          from Return_Diagnostics_eq
            [OF this [unfolded Create_sign_error [where ToJWT = ToJWT, OF get ok' pd Some refl Inl]]]
          show False by (simp add: NewErrorDiagnostic_def)
        qed
      next
        case jwt: (Inr jwt)
        show ?thesis
        proof
          assume "Create ToJWT r \<lparr>Plan = Some plan\<rparr> resp = ?R err"
          from Return_Diagnostics_eq
            [OF this [unfolded Create_signed [where ToJWT = ToJWT, OF get ok' pd Some refl jwt]]]
          show False by simp
        qed
      qed
    qed
    with Inr show ?thesis by simp
  qed
  then show ?thesis
    by (simp add: ParseDuration_1h ParseDuration_30m ParseDuration_1h30m ParseDuration_tomorrow
          ParseDuration_empty ParseDuration_1x)
qed

text \<open>Creating the example token with the validity \<open>tomorrow\<close>.\<close>

theorem Create_invalid_duration_witness:
  "isl (ParseDuration ''tomorrow'') \<and>
   (\<exists>err. Create (\<lambda>at. Inr ''jwt'') \<lparr>apiKeys = None\<rparr>
             \<lparr>Plan = Some (example_plan ''tomorrow'')\<rparr> \<lparr>State = None, Diagnostics = []\<rparr> =
           Return (\<lparr>State = None, Diagnostics =
                      [NewErrorDiagnostic ''Invalid valid_for '' (DurationErrorText err)]\<rparr>,
                   \<lparr>apiKeys = None\<rparr>))"
proof -
  have vf: "example_plan ''tomorrow'' ''valid_for'' = Some (StringValue (Known ''tomorrow''))"
    by (simp add: example_plan_def)
  have ok: "\<not> HasError (Diagnostics \<lparr>State = None, Diagnostics = []\<rparr>)" by simp
  have i: "isl (ParseDuration (ValueString (Known ''tomorrow'')))"
    by (simp add: ParseDuration_tomorrow)
  from Create_invalid_duration [OF conforms_example_plan vf ok,
      of "\<lambda>at. Inr ''jwt''" "\<lparr>apiKeys = None\<rparr>", THEN conjunct1, THEN iffD1, OF i]
  have "\<exists>err. Create (\<lambda>at. Inr ''jwt'') \<lparr>apiKeys = None\<rparr>
             \<lparr>Plan = Some (example_plan ''tomorrow'')\<rparr> \<lparr>State = None, Diagnostics = []\<rparr> =
           Return (\<lparr>State = None, Diagnostics =
                      [NewErrorDiagnostic ''Invalid valid_for '' (DurationErrorText err)]\<rparr>,
                   \<lparr>apiKeys = None\<rparr>)"
    by simp
  with i show ?thesis by simp
qed

subsection \<open>The grant\<close>

text \<open>
  Claim C5: whenever \<open>Create\<close> returns without an error for a plan of the schema, the
  resource was configured, the plan's \<open>valid_for\<close> parsed to a duration \<open>d\<close>, and the
  signer returned its token for an access token that keeps the provider's key and secret
  and carries: a grant with the plan's room, the plan's three permission flags and
  \<open>RoomJoin\<close> true; the plan's identity; and the validity \<open>d\<close>.  The state written is
  the plan with the signed token in it.
\<close>

theorem Create_grant:
  assumes c: "conforms Schema_Attributes plan"
    and room: "plan ''room'' = Some (StringValue room)"
    and ident: "plan ''identity'' = Some (StringValue ident)"
    and cp: "plan ''can_publish'' = Some (BoolValue cp)"
    and cpd: "plan ''can_publish_data'' = Some (BoolValue cpd)"
    and cs: "plan ''can_subscribe'' = Some (BoolValue cs)"
    and vf: "plan ''valid_for'' = Some (StringValue vf)"
    and cr: "Create ToJWT r \<lparr>Plan = Some plan\<rparr> resp = Return (resp', r')"
    and ok: "\<not> HasError (Diagnostics resp')"
  shows "\<exists>t d at jwt.
           apiKeys r = Some t \<and> ParseDuration (ValueString vf) = Inr d \<and>
           apiKeys r' = Some at \<and> ToJWT at = Inr jwt \<and>
           at_apiKey at = at_apiKey t \<and> at_secret at = at_secret t \<and>
           claim_Video (at_grant at) =
             Some \<lparr>grant_Room = ValueString room,
                   grant_CanPublish = ValueBoolPointer cp,
                   grant_CanPublishData = ValueBoolPointer cpd,
                   grant_CanSubscribe = ValueBoolPointer cs,
                   grant_RoomJoin = True\<rparr> \<and>
           claim_Identity (at_grant at) = ValueString ident \<and>
           at_validFor at = d \<and>
           State resp' = Some (plan(''token'' \<mapsto> StringValue (Known jwt)))"
proof -
  from c obtain data where
    get: "Get_AccessTokenResourceModel (Plan \<lparr>Plan = Some plan\<rparr>) = ([], data)"
    and f: "plan ''room'' = Some (StringValue (Room data))"
      "plan ''identity'' = Some (StringValue (Identity data))"
      "plan ''can_publish'' = Some (BoolValue (CanPublish data))"
      "plan ''can_publish_data'' = Some (BoolValue (CanPublishData data))"
      "plan ''can_subscribe'' = Some (BoolValue (CanSubscribe data))"
      "plan ''valid_for'' = Some (StringValue (ValidFor data))"
    and set: "Set_AccessTokenResourceModel data = plan"
    by (rule conforms_Get) simp
  from f room ident cp cpd cs vf have d: "Room data = room" "Identity data = ident"
    "CanPublish data = cp" "CanPublishData data = cpd" "CanSubscribe data = cs"
    "ValidFor data = vf" by simp_all
  let ?D = "Append (Diagnostics resp) []"
  have ok0: "\<not> HasError ?D"
  proof
    assume e: "HasError ?D"
    from cr [unfolded Create_Get_error [OF get e]] ok e show False by auto
  qed
  obtain dur where pd: "ParseDuration (ValueString (ValidFor data)) = Inr dur"
  proof (cases "ParseDuration (ValueString (ValidFor data))")
    case (Inl err)
    from cr [unfolded Create_parse_error [OF get ok0 Inl]] ok show ?thesis
      by (auto simp: HasError_snoc_error)
  next
    case (Inr dur)
    then show ?thesis by (rule that)
  qed
  obtain t where t: "apiKeys r = Some t"
  proof (cases "apiKeys r")
    case None
    from cr [unfolded Create_nil [OF get ok0 pd None]] show ?thesis by simp
  next
    case (Some t)
    then show ?thesis by (rule that)
  qed
  let ?at = "SetValidFor
                (SetIdentity
                   (AddGrant t \<lparr>grant_Room = ValueString (Room data),
                                 grant_CanPublish = ValueBoolPointer (CanPublish data),
                                 grant_CanPublishData = ValueBoolPointer (CanPublishData data),
                                 grant_CanSubscribe = ValueBoolPointer (CanSubscribe data),
                                 grant_RoomJoin = True\<rparr>)
                   (ValueString (Identity data))) dur"
  obtain jwt where jwt: "ToJWT ?at = Inr jwt"
  proof (cases "ToJWT ?at")
    case (Inl e)
    from cr [unfolded Create_sign_error [where ToJWT = ToJWT, OF get ok0 pd t refl Inl]] ok
    show ?thesis by (auto simp: HasError_snoc_error)
  next
    case (Inr jwt)
    then show ?thesis by (rule that)
  qed
  from cr [unfolded Create_signed [where ToJWT = ToJWT, OF get ok0 pd t refl jwt]]
  have r': "apiKeys r' = Some ?at"
    and s': "State resp' = Some (Set_AccessTokenResourceModel (data\<lparr>Token := Known jwt\<rparr>))"
    by auto
  from s' have s'': "State resp' = Some (plan(''token'' \<mapsto> StringValue (Known jwt)))"
    by (simp add: Set_Token set)
  have at: "at_apiKey ?at = at_apiKey t" "at_secret ?at = at_secret t"
    "claim_Video (at_grant ?at) =
       Some \<lparr>grant_Room = ValueString room,
             grant_CanPublish = ValueBoolPointer cp,
             grant_CanPublishData = ValueBoolPointer cpd,
             grant_CanSubscribe = ValueBoolPointer cs,
             grant_RoomJoin = True\<rparr>"
    "claim_Identity (at_grant ?at) = ValueString ident"
    "at_validFor ?at = dur"
    by (simp_all add: SetValidFor_def SetIdentity_def AddGrant_def d)
  from t pd r' jwt at s'' show ?thesis unfolding d by blast
qed

text \<open>
  The example token, valid for \<open>1h\<close>, with a signer that returns the identity it is
  given.
\<close>

theorem Create_grant_witness:
  "\<exists>resp' r' t at.
     Create (\<lambda>at. Inr (claim_Identity (at_grant at)))
       \<lparr>apiKeys = Some (NewAccessToken ''key'' ''secret'')\<rparr>
       \<lparr>Plan = Some (example_plan ''1h'')\<rparr> \<lparr>State = None, Diagnostics = []\<rparr> =
     Return (resp', r') \<and>
     apiKeys r' = Some at \<and>
     claim_Video (at_grant at) =
       Some \<lparr>grant_Room = ''example_room'', grant_CanPublish = Some True,
             grant_CanPublishData = Some False, grant_CanSubscribe = Some True,
             grant_RoomJoin = True\<rparr> \<and>
     claim_Identity (at_grant at) = ''example_identity'' \<and>
     at_validFor at = 3600000000000 \<and>
     State resp' = Some ((example_plan ''1h'')(''token'' \<mapsto> StringValue (Known ''example_identity'')))"
proof -
  let ?J = "\<lambda>at. Inr (claim_Identity (at_grant at)) :: string + string"
  let ?r = "\<lparr>apiKeys = Some (NewAccessToken ''key'' ''secret'')\<rparr>"
  let ?resp = "\<lparr>State = None, Diagnostics = []\<rparr>"
  let ?req = "\<lparr>Plan = Some (example_plan ''1h'')\<rparr>"
  have ok: "\<not> HasError (Append (Diagnostics ?resp) [])" by simp
  have pd: "ParseDuration (ValueString (ValidFor \<lparr>Room = Known ''example_room'',
           Identity = Known ''example_identity'',
           CanPublish = Known True, CanPublishData = Known False, CanSubscribe = Known True,
           ValidFor = Known ''1h'', Token = Unknown\<rparr>)) = Inr 3600000000000"
    by (simp add: ParseDuration_1h)
  have ak: "apiKeys ?r = Some (NewAccessToken ''key'' ''secret'')" by simp
  note cr = Create_signed [where ToJWT = ?J, OF Get_Plan_example ok pd ak refl refl]
  have f: "example_plan ''1h'' ''room'' = Some (StringValue (Known ''example_room''))"
    "example_plan ''1h'' ''identity'' = Some (StringValue (Known ''example_identity''))"
    "example_plan ''1h'' ''can_publish'' = Some (BoolValue (Known True))"
    "example_plan ''1h'' ''can_publish_data'' = Some (BoolValue (Known False))"
    "example_plan ''1h'' ''can_subscribe'' = Some (BoolValue (Known True))"
    "example_plan ''1h'' ''valid_for'' = Some (StringValue (Known ''1h''))"
    by (simp_all add: example_plan_def)
  from Create_grant [OF conforms_example_plan f cr] cr
  show ?thesis
    by (simp add: ParseDuration_1h SetValidFor_def SetIdentity_def AddGrant_def NewAccessToken_def)
qed

subsection \<open>Go's duration syntax and the signer's default validity\<close>






end
